theory Spec2Isabelle
  imports Main "HOL-Library.Sublist"
begin


section \<open>Python string operations used by the converter\<close>

text \<open>
  Python strings are sequences of code points. Here a string is a \<^typ>\<open>char list\<close> and a
  \<^typ>\<open>char\<close> stands for a code point below 256; the character classes below are Python's,
  restricted to that range.
\<close>

abbreviation NL :: string where
  "NL \<equiv> [CHR 0x0A]"

abbreviation TAB :: string where
  "TAB \<equiv> [CHR 0x09]"

abbreviation APOS :: string where
  "APOS \<equiv> [CHR 0x27]"

text \<open>\<^verbatim>\<open>html.escape(s)\<close> with its default \<^verbatim>\<open>quote=True\<close>.\<close>

definition html_escape_char :: "char \<Rightarrow> string" where
  "html_escape_char c =
     (if c = CHR ''&'' then ''&amp;''
      else if c = CHR ''<'' then ''&lt;''
      else if c = CHR ''>'' then ''&gt;''
      else if c = CHR 0x22 then ''&quot;''
      else if c = CHR 0x27 then ''&#x27;''
      else [c])"

definition html_escape :: "string \<Rightarrow> string" where
  "html_escape s = concat (map html_escape_char s)"

text \<open>\<^verbatim>\<open>str.isspace\<close> on one character, and the line boundaries of \<^verbatim>\<open>str.splitlines\<close>.\<close>

definition is_space :: "char \<Rightarrow> bool" where
  "is_space c = (c \<in> set [CHR 0x09, CHR 0x0A, CHR 0x0B, CHR 0x0C, CHR 0x0D,
                            CHR 0x1C, CHR 0x1D, CHR 0x1E, CHR 0x1F, CHR 0x20,
                            CHR 0x85, CHR 0xA0])"

definition is_line_boundary :: "char \<Rightarrow> bool" where
  "is_line_boundary c = (c \<in> set [CHR 0x0A, CHR 0x0B, CHR 0x0C, CHR 0x0D,
                                    CHR 0x1C, CHR 0x1D, CHR 0x1E, CHR 0x85])"

text \<open>\<^verbatim>\<open>s.strip()\<close>\<close>

definition strip :: "string \<Rightarrow> string" where
  "strip s = rev (dropWhile is_space (rev (dropWhile is_space s)))"

text \<open>
  \<^verbatim>\<open>s.splitlines()\<close>: a carriage return followed by a line feed is one boundary, and a
  boundary at the very end opens no further line. The first argument is the line read so far.
\<close>

fun splitlines_from :: "string \<Rightarrow> string \<Rightarrow> string list" where
  "splitlines_from cur [] = (if cur = [] then [] else [cur])"
| "splitlines_from cur [c] = (if is_line_boundary c then [cur] else [cur @ [c]])"
| "splitlines_from cur (c # d # cs) =
     (if c = CHR 0x0D \<and> d = CHR 0x0A then cur # splitlines_from [] cs
      else if is_line_boundary c then cur # splitlines_from [] (d # cs)
      else splitlines_from (cur @ [c]) (d # cs))"

definition splitlines :: "string \<Rightarrow> string list" where
  "splitlines s = splitlines_from [] s"

text \<open>\<^verbatim>\<open>s.startswith(p)\<close>\<close>

definition startswith :: "string \<Rightarrow> string \<Rightarrow> bool" where
  "startswith s p = (take (length p) s = p)"

text \<open>
  \<^verbatim>\<open>s.count(sub)\<close>: the number of non-overlapping occurrences of \<open>sub\<close>, scanning from the
  left; the empty \<open>sub\<close> occurs between all characters.
\<close>

fun count_from :: "string \<Rightarrow> char \<Rightarrow> string \<Rightarrow> nat" where
  "count_from [] p ps = 0"
| "count_from (c # cs) p ps =
     (if startswith (c # cs) (p # ps) then Suc (count_from (drop (length ps) cs) p ps)
      else count_from cs p ps)"

definition str_count :: "string \<Rightarrow> string \<Rightarrow> nat" where
  "str_count s sub = (case sub of [] \<Rightarrow> length s + 1 | p # ps \<Rightarrow> count_from s p ps)"

text \<open>
  \<^verbatim>\<open>s.split(sep)\<close> for a separator: the pieces between the non-overlapping occurrences of
  \<open>sep\<close>, scanning from the left. Python raises \<^verbatim>\<open>ValueError\<close> on the empty separator; the
  converter only splits on the literals \<^verbatim>\<open>"# "\<close> and \<^verbatim>\<open>".ipynb"\<close>, so the separator is
  given as its first character and its rest. The first argument is the piece read so far.
\<close>

fun split_from :: "string \<Rightarrow> string \<Rightarrow> char \<Rightarrow> string \<Rightarrow> string list" where
  "split_from cur [] p ps = [cur]"
| "split_from cur (c # cs) p ps =
     (if startswith (c # cs) (p # ps) then cur # split_from [] (drop (length ps) cs) p ps
      else split_from (cur @ [c]) cs p ps)"

datatype error = ValueError | IndexError | Base64Error | NotADirectoryError

definition str_split :: "string \<Rightarrow> string \<Rightarrow> error + string list" where
  "str_split s sep = (case sep of [] \<Rightarrow> Inl ValueError | p # ps \<Rightarrow> Inr (split_from [] s p ps))"

text \<open>\<^verbatim>\<open>xs[0]\<close> and \<^verbatim>\<open>xs[-1]\<close>\<close>

definition list_first :: "'a list \<Rightarrow> error + 'a" where
  "list_first xs = (case xs of [] \<Rightarrow> Inl IndexError | x # _ \<Rightarrow> Inr x)"

definition list_last :: "'a list \<Rightarrow> error + 'a" where
  "list_last xs = (case rev xs of [] \<Rightarrow> Inl IndexError | x # _ \<Rightarrow> Inr x)"

text \<open>\<^verbatim>\<open>sep.join(xs)\<close>\<close>

fun join :: "string \<Rightarrow> string list \<Rightarrow> string" where
  "join sep [] = []"
| "join sep [x] = x"
| "join sep (x # y # ys) = x @ sep @ join sep (y # ys)"

text \<open>The decimal numeral an f-string prints for a non-negative integer.\<close>

definition digit_char :: "nat \<Rightarrow> char" where
  "digit_char d = ''0123456789'' ! (d mod 10)"

fun str_nat :: "nat \<Rightarrow> string" where
  "str_nat n = (if n < 10 then [digit_char n] else str_nat (n div 10) @ [digit_char (n mod 10)])"

declare str_nat.simps [simp del]


section \<open>Notebook documents\<close>

text \<open>
  Cells and outputs are the dictionaries of the notebook format. A key the converter reads
  with \<^verbatim>\<open>.get\<close> may be absent (\<open>None\<close>); \<^verbatim>\<open>cell_type\<close> and \<^verbatim>\<open>source\<close> are indexed directly and
  are always there. The \<^verbatim>\<open>data\<close> mapping goes from MIME type to payload.
\<close>

record "output" =
  output_type :: "string option"
  output_name :: "string option"
  output_text :: "string option"
  output_data :: "(string \<times> string) list option"
  output_traceback :: "string list option"

record cell =
  cell_type :: string
  source :: string
  outputs :: "output list option"

record notebook =
  cells :: "cell list"

text \<open>\<^verbatim>\<open>output.get("data", {})\<close>\<close>

definition get_data :: "output \<Rightarrow> (string \<times> string) list" where
  "get_data out = (case output_data out of None \<Rightarrow> [] | Some d \<Rightarrow> d)"


section \<open>Dictionaries\<close>

text \<open>
  A Python dictionary keeps its keys in insertion order; \<^verbatim>\<open>d[k] = v\<close> replaces the value of a
  key that is there, in place, and appends a new key at the end.
\<close>

primrec dict_set :: "'k \<Rightarrow> 'v \<Rightarrow> ('k \<times> 'v) list \<Rightarrow> ('k \<times> 'v) list" where
  "dict_set k v [] = [(k, v)]"
| "dict_set k v (p # ps) = (if fst p = k then (k, v) # ps else p # dict_set k v ps)"


section \<open>The file system\<close>

text \<open>
  The directories that exist and the files with their contents, by path. Paths are POSIX
  paths: \<^verbatim>\<open>os.path.sep\<close> is a slash.
\<close>

record filesystem =
  dirs :: "string list"
  files :: "(string \<times> string) list"

definition delim :: string where
  "delim = ''/''"

definition path_exists :: "filesystem \<Rightarrow> string \<Rightarrow> bool" where
  "path_exists fs p = (p \<in> set (dirs fs) \<or> map_of (files fs) p \<noteq> None)"

definition makedirs :: "filesystem \<Rightarrow> string \<Rightarrow> filesystem" where
  "makedirs fs p = fs\<lparr>dirs := dirs fs @ [p]\<rparr>"

definition path_join :: "string \<Rightarrow> string \<Rightarrow> string" where
  "path_join a b =
     (if startswith b delim then b
      else if a = [] \<or> startswith (rev a) delim then a @ b
      else a @ delim @ b)"

text \<open>
  \<^verbatim>\<open>save_plot_as_image\<close>: opens the file inside \<open>output_dir\<close> for writing and writes the decoded
  image. Opening fails when \<open>output_dir\<close> is not a directory; decoding is the Base64 library's
  \<open>b64decode\<close>, which fails on a malformed payload.
\<close>

definition save_plot_as_image ::
  "(string \<Rightarrow> string option) \<Rightarrow> filesystem \<Rightarrow> string \<Rightarrow> string \<Rightarrow> string \<Rightarrow>
     error + filesystem" where
  "save_plot_as_image b64decode fs img_data img_filename output_dir =
     (let img_path = path_join output_dir img_filename in
      if output_dir \<notin> set (dirs fs) then Inl NotADirectoryError
      else case b64decode img_data of
             None \<Rightarrow> Inl Base64Error
           | Some bytes \<Rightarrow> Inr (fs\<lparr>files := dict_set img_path bytes (files fs)\<rparr>))"


section \<open>The renderer\<close>

text \<open>
  The local variables of \<^verbatim>\<open>extract_html_from_notebook\<close>, and the file system it writes to.
\<close>

record render_state =
  html_output :: "string list"
  fig_id :: nat
  aggregated_output :: string
  fs :: filesystem

definition code_block :: "string \<Rightarrow> string" where
  "code_block src =
     ''<div class='code-cell'>'' @
     NL @ TAB @ ''<code class='language-python'>'' @
     NL @ TAB @ TAB @ src @
     NL @ TAB @ ''</code>'' @
     NL @ ''</div>''"

definition out_block :: "string \<Rightarrow> string" where
  "out_block agg =
     ''<div class='output-cell'>'' @
     ''<div class='output-label'>'' @
     NL @ TAB @ ''Out:'' @
     NL @ ''</div>'' @
     NL @ TAB @ ''<div class='output-code'>'' @
     agg @
     NL @ TAB @ ''</div>'' @
     NL @ ''</div>''"

definition base64_image_block :: "string \<Rightarrow> string" where
  "base64_image_block img_data =
     ''<div class='output-cell'>'' @
     NL @ TAB @ ''<img src='data:image/png;base64,'' @
     img_data @ APOS @ ''/>'' @
     NL @ ''</div>''"

definition file_image_block :: "string \<Rightarrow> string \<Rightarrow> string" where
  "file_image_block output_folder img_filename =
     ''<div class='output-cell'>'' @
     NL @ TAB @ ''<img src='' @ APOS @ output_folder @ delim @
     img_filename @ APOS @ ''/>'' @
     NL @ ''</div>''"

definition error_block :: "string \<Rightarrow> string" where
  "error_block error_message =
     ''<div class='output-cell error'>'' @
     NL @ TAB @ ''<pre>'' @
     NL @ TAB @ TAB @ error_message @
     NL @ TAB @ ''</pre>'' @
     NL @ ''</div>''"

definition heading_block :: "nat \<Rightarrow> string \<Rightarrow> string" where
  "heading_block header_level markdown_content =
     ''<div class='markdown-cell'>'' @
     NL @ TAB @ ''<h'' @ str_nat header_level @ ''>'' @
     NL @ TAB @ TAB @ markdown_content @
     NL @ TAB @ ''</h'' @ str_nat header_level @ ''>'' @
     NL @ ''</div>''"

definition markdown_block :: "string \<Rightarrow> string" where
  "markdown_block markdown_content =
     ''<div class='markdown-cell'>'' @
     NL @ TAB @ markdown_content @
     NL @ ''</div>''"

text \<open>Plain outputs: the escaped \<^verbatim>\<open>text/plain\<close> payload goes to the aggregation buffer.\<close>

definition handle_plain :: "render_state \<Rightarrow> output \<Rightarrow> render_state" where
  "handle_plain st out =
     (case map_of (get_data out) ''text/plain'' of
        None \<Rightarrow> st
      | Some text_output \<Rightarrow>
          st\<lparr>aggregated_output :=
               aggregated_output st @ NL @ TAB @ TAB @ html_escape text_output\<rparr>)"

text \<open>Standard output: the escaped stream text goes to the aggregation buffer.\<close>

definition handle_stdout :: "render_state \<Rightarrow> output \<Rightarrow> render_state" where
  "handle_stdout st out =
     (if output_type out = Some ''stream'' \<and> output_name out = Some ''stdout''
      then st\<lparr>aggregated_output :=
                 aggregated_output st @ NL @ TAB @ TAB @
                 html_escape (case output_text out of None \<Rightarrow> [] | Some t \<Rightarrow> t)\<rparr>
      else st)"

text \<open>A non-empty aggregation buffer is emitted as one block and emptied.\<close>

definition flush_aggregated :: "render_state \<Rightarrow> render_state" where
  "flush_aggregated st =
     (if aggregated_output st \<noteq> []
      then st\<lparr>html_output := html_output st @ [out_block (aggregated_output st)],
              aggregated_output := []\<rparr>
      else st)"

definition img_filename :: "nat \<Rightarrow> string" where
  "img_filename n =
     (if n \<le> 10 then ''fig_0'' @ str_nat n @ ''.png'' else ''fig_'' @ str_nat n @ ''.png'')"

text \<open>Images: the buffer is flushed, then the image is embedded or saved and referenced.\<close>

definition handle_image ::
  "(string \<Rightarrow> string option) \<Rightarrow> string \<Rightarrow> string \<Rightarrow> bool \<Rightarrow> render_state \<Rightarrow> output \<Rightarrow>
     error + render_state" where
  "handle_image b64decode input_dir filename use_base64 st out =
     (case map_of (get_data out) ''image/png'' of
        None \<Rightarrow> Inr st
      | Some img_data \<Rightarrow>
          let st1 = flush_aggregated st in
          if use_base64
          then Inr (st1\<lparr>html_output := html_output st1 @ [base64_image_block img_data]\<rparr>)
          else
            let n = fig_id st1 + 1 in
            (case str_split filename ''.ipynb'' of
               Inl e \<Rightarrow> Inl e
             | Inr parts \<Rightarrow>
                 (case list_first parts of
                    Inl e \<Rightarrow> Inl e
                  | Inr stem \<Rightarrow>
                      let output_folder = ''output_nb_'' @ stem;
                          output_dir = input_dir @ delim @ output_folder;
                          fs1 = (if \<not> path_exists (fs st1) output_dir
                                 then makedirs (fs st1) output_dir else fs st1)
                      in (case save_plot_as_image b64decode fs1 img_data (img_filename n)
                                 output_dir of
                            Inl e \<Rightarrow> Inl e
                          | Inr fs2 \<Rightarrow>
                              Inr (st1\<lparr>html_output :=
                                         html_output st1 @
                                         [file_image_block output_folder (img_filename n)],
                                       fig_id := n, fs := fs2\<rparr>)))))"

text \<open>Errors: the traceback lines, joined by newlines, are emitted at once.\<close>

definition handle_error :: "render_state \<Rightarrow> output \<Rightarrow> render_state" where
  "handle_error st out =
     (if output_type out = Some ''error''
      then st\<lparr>html_output :=
                 html_output st @
                 [error_block (join NL (case output_traceback out of None \<Rightarrow> [] | Some t \<Rightarrow> t))]\<rparr>
      else st)"

text \<open>One pass of the loop over a code cell's outputs: the four tests, in the source's order.\<close>

definition process_output ::
  "(string \<Rightarrow> string option) \<Rightarrow> string \<Rightarrow> string \<Rightarrow> bool \<Rightarrow> render_state \<Rightarrow> output \<Rightarrow>
     error + render_state" where
  "process_output b64decode input_dir filename use_base64 st out =
     (case handle_image b64decode input_dir filename use_base64
             (handle_stdout (handle_plain st out) out) out of
        Inl e \<Rightarrow> Inl e
      | Inr st3 \<Rightarrow> Inr (handle_error st3 out))"

fun process_outputs ::
  "(string \<Rightarrow> string option) \<Rightarrow> string \<Rightarrow> string \<Rightarrow> bool \<Rightarrow> render_state \<Rightarrow> output list \<Rightarrow>
     error + render_state" where
  "process_outputs b64decode input_dir filename use_base64 st [] = Inr st"
| "process_outputs b64decode input_dir filename use_base64 st (out # rest) =
     (case process_output b64decode input_dir filename use_base64 st out of
        Inl e \<Rightarrow> Inl e
      | Inr st' \<Rightarrow> process_outputs b64decode input_dir filename use_base64 st' rest)"

text \<open>A markdown cell: a heading when its only non-blank line starts with a hash.\<close>

definition content_lines :: "string \<Rightarrow> string list" where
  "content_lines markdown_content =
     filter (\<lambda>l. l \<noteq> []) (map strip (splitlines markdown_content))"

definition is_header_cell :: "string \<Rightarrow> bool" where
  "is_header_cell markdown_content =
     (case content_lines markdown_content of
        [l] \<Rightarrow> startswith l ''#''
      | _ \<Rightarrow> False)"

definition process_markdown :: "render_state \<Rightarrow> string \<Rightarrow> error + render_state" where
  "process_markdown st src =
     (let markdown_content = html_escape src in
      if is_header_cell markdown_content
      then
        let header_level = str_count markdown_content ''#'' in
        (case str_split markdown_content ''# '' of
           Inl e \<Rightarrow> Inl e
         | Inr parts \<Rightarrow>
             (case list_last parts of
                Inl e \<Rightarrow> Inl e
              | Inr title \<Rightarrow>
                  Inr (st\<lparr>html_output :=
                            html_output st @ [heading_block header_level title]\<rparr>)))
      else Inr (st\<lparr>html_output := html_output st @ [markdown_block markdown_content]\<rparr>))"

text \<open>One pass of the loop over the cells.\<close>

definition process_cell ::
  "(string \<Rightarrow> string option) \<Rightarrow> string \<Rightarrow> string \<Rightarrow> bool \<Rightarrow> render_state \<Rightarrow> cell \<Rightarrow>
     error + render_state" where
  "process_cell b64decode input_dir filename use_base64 st c =
     (if cell_type c = ''code'' then
        (case process_outputs b64decode input_dir filename use_base64
                (st\<lparr>html_output := html_output st @ [code_block (source c)]\<rparr>)
                (case outputs c of None \<Rightarrow> [] | Some outs \<Rightarrow> outs) of
           Inl e \<Rightarrow> Inl e
         | Inr st' \<Rightarrow> Inr (flush_aggregated st'))
      else if cell_type c = ''markdown'' then process_markdown st (source c)
      else Inr st)"

fun process_cells ::
  "(string \<Rightarrow> string option) \<Rightarrow> string \<Rightarrow> string \<Rightarrow> bool \<Rightarrow> render_state \<Rightarrow> cell list \<Rightarrow>
     error + render_state" where
  "process_cells b64decode input_dir filename use_base64 st [] = Inr st"
| "process_cells b64decode input_dir filename use_base64 st (c # rest) =
     (case process_cell b64decode input_dir filename use_base64 st c of
        Inl e \<Rightarrow> Inl e
      | Inr st' \<Rightarrow> process_cells b64decode input_dir filename use_base64 st' rest)"

definition initial_state :: "filesystem \<Rightarrow> render_state" where
  "initial_state fs0 = \<lparr>html_output = [], fig_id = 0, aggregated_output = [], fs = fs0\<rparr>"

text \<open>
  \<^verbatim>\<open>extract_html_from_notebook\<close>: the markup it returns and the file system it leaves, or the
  exception it is left by. \<open>b64decode\<close> is the Base64 library's decoder and \<open>fs0\<close> the file
  system it starts on.
\<close>

definition extract_html_from_notebook ::
  "(string \<Rightarrow> string option) \<Rightarrow> filesystem \<Rightarrow> notebook \<Rightarrow> string \<Rightarrow> string \<Rightarrow> bool \<Rightarrow>
     error + (string \<times> filesystem)" where
  "extract_html_from_notebook b64decode fs0 nb input_dir filename use_base64 =
     (case process_cells b64decode input_dir filename use_base64 (initial_state fs0) (cells nb) of
        Inl e \<Rightarrow> Inl e
      | Inr st \<Rightarrow> Inr (join NL (html_output st), fs st))"


section \<open>The hierarchy extractor\<close>

text \<open>
  The document tree the HTML parser returns: an element is a tag, with its name, its
  attributes and its children, or a string. The parser's own work, from the markup to the
  tree and from an element back to its markup (\<^verbatim>\<open>str(tag)\<close>), is the parser library's: the
  extractor is modelled on the tree, with the serialiser \<open>str_of\<close> as a parameter.
\<close>

datatype element =
    Tag (tag_name: string) (tag_attrs: "(string \<times> string) list") (tag_contents: "element list")
  | NavigableString string

fun is_Tag :: "element \<Rightarrow> bool" where
  "is_Tag (Tag n a cs) = True"
| "is_Tag (NavigableString s) = False"

text \<open>
  The markup of an element with no void tags and no quotation marks in attribute values,
  as the parser library prints it; the serialiser of the examples.
\<close>

definition minimal_escape_char :: "char \<Rightarrow> string" where
  "minimal_escape_char c =
     (if c = CHR ''&'' then ''&amp;''
      else if c = CHR ''<'' then ''&lt;''
      else if c = CHR ''>'' then ''&gt;''
      else [c])"

definition attr_markup :: "string \<times> string \<Rightarrow> string" where
  "attr_markup kv = '' '' @ fst kv @ ''='' @ [CHR 0x22] @ snd kv @ [CHR 0x22]"

fun element_markup :: "element \<Rightarrow> string" where
  "element_markup (NavigableString s) = concat (map minimal_escape_char s)"
| "element_markup (Tag n a cs) =
     ''<'' @ n @ concat (map attr_markup a) @ ''>'' @
     concat (map element_markup cs) @
     ''</'' @ n @ ''>''"

text \<open>\<^verbatim>\<open>tag.get_text(strip=True)\<close>: the strings below the tag, each stripped, the empty ones left out.\<close>

fun all_strings :: "element \<Rightarrow> string list" where
  "all_strings (NavigableString s) = [s]"
| "all_strings (Tag n a cs) = concat (map all_strings cs)"

definition get_text :: "element \<Rightarrow> string" where
  "get_text e = concat (filter (\<lambda>s. s \<noteq> []) (map strip (all_strings e)))"

text \<open>
  The pattern \<^verbatim>\<open>h[1-6]\<close>: \<^verbatim>\<open>re.match\<close> tries it at the start of the name, \<^verbatim>\<open>find_all\<close> with a
  compiled pattern searches the name for it.
\<close>

fun re_match_heading :: "string \<Rightarrow> bool" where
  "re_match_heading (c # d # cs) = (c = CHR ''h'' \<and> d \<in> set ''123456'')"
| "re_match_heading cs = False"

fun re_search_heading :: "string \<Rightarrow> bool" where
  "re_search_heading [] = False"
| "re_search_heading (c # cs) = (re_match_heading (c # cs) \<or> re_search_heading cs)"

text \<open>
  All tags of a forest in document order, each with the nodes that follow it under the same
  parent; \<^verbatim>\<open>find_all\<close> keeps the tags whose name the pattern is found in, and
  \<^verbatim>\<open>find_next_siblings()\<close> the tags among the following nodes.
\<close>

fun tags_in_order :: "element list \<Rightarrow> (element \<times> element list) list" where
  "tags_in_order [] = []"
| "tags_in_order (NavigableString s # rest) = tags_in_order rest"
| "tags_in_order (Tag n a cs # rest) =
     (Tag n a cs, rest) # tags_in_order cs @ tags_in_order rest"

definition find_all_headings :: "element list \<Rightarrow> (element \<times> element list) list" where
  "find_all_headings soup =
     filter (\<lambda>ts. re_search_heading (tag_name (fst ts))) (tags_in_order soup)"

definition find_next_siblings :: "element list \<Rightarrow> element list" where
  "find_next_siblings following = filter is_Tag following"

text \<open>\<^verbatim>\<open>int(tag.name[1])\<close>\<close>

definition int_of_char :: "char \<Rightarrow> error + nat" where
  "int_of_char c =
     (if c \<in> set ''0123456789'' then Inr (of_char c - 48) else Inl ValueError)"

definition heading_level :: "string \<Rightarrow> error + nat" where
  "heading_level nm = (case drop 1 nm of [] \<Rightarrow> Inl IndexError | c # _ \<Rightarrow> int_of_char c)"

text \<open>
  A section of the result: its \<^verbatim>\<open>contents\<close> and, once it has a child, its \<^verbatim>\<open>sections\<close>, by
  title.
\<close>

datatype heading_section =
  Section (contents: string) (sections: "(string \<times> heading_section) list option")

definition section_contents ::
  "(element \<Rightarrow> string) \<Rightarrow> element \<Rightarrow> element list \<Rightarrow> string" where
  "section_contents str_of tag following =
     str_of tag @
     concat (map str_of
       (filter (\<lambda>sibling. \<not> re_match_heading (tag_name sibling))
          (find_next_siblings following)))"

text \<open>
  The stack holds references to sections already placed in the result. Here a reference is
  the path of titles that leads from the top-level mapping to the section, and the head of
  the list is the top of the stack. \<open>attach\<close> stores a section under a title in the
  \<^verbatim>\<open>sections\<close> of the section a path refers to, creating \<^verbatim>\<open>sections\<close> when it is not there;
  the empty path refers to the top-level mapping.
\<close>

fun lookup_path ::
  "(string \<times> heading_section) list \<Rightarrow> string list \<Rightarrow> heading_section option" where
  "lookup_path d [] = None"
| "lookup_path d [k] = map_of d k"
| "lookup_path d (k # k' # ks) =
     (case map_of d k of
        Some (Section c (Some subs)) \<Rightarrow> lookup_path subs (k' # ks)
      | _ \<Rightarrow> None)"

fun attach ::
  "string list \<Rightarrow> string \<Rightarrow> heading_section \<Rightarrow> (string \<times> heading_section) list \<Rightarrow>
     (string \<times> heading_section) list" where
  "attach [] title sec d = dict_set title sec d"
| "attach (k # path) title sec d =
     (case map_of d k of
        None \<Rightarrow> d
      | Some (Section c subs) \<Rightarrow>
          dict_set k
            (Section c (Some (attach path title sec (case subs of None \<Rightarrow> [] | Some m \<Rightarrow> m))))
            d)"

record hierarchy_state =
  root :: "(string \<times> heading_section) list"
  stack :: "(string list \<times> nat) list"

text \<open>One pass of the loop over the headings.\<close>

definition heading_step ::
  "(element \<Rightarrow> string) \<Rightarrow> hierarchy_state \<Rightarrow> element \<times> element list \<Rightarrow>
     error + hierarchy_state" where
  "heading_step str_of hs ts =
     (case heading_level (tag_name (fst ts)) of
        Inl e \<Rightarrow> Inl e
      | Inr level \<Rightarrow>
          let title = get_text (fst ts);
              sec = Section (section_contents str_of (fst ts) (snd ts)) None;
              stack1 = dropWhile (\<lambda>entry. snd entry \<ge> level) (stack hs)
          in (case stack1 of
                (parent, l) # below \<Rightarrow>
                  Inr \<lparr>root = attach parent title sec (root hs),
                       stack = (parent @ [title], level) # stack1\<rparr>
              | [] \<Rightarrow>
                  Inr \<lparr>root = dict_set title sec (root hs),
                       stack = [([title], level)]\<rparr>))"

fun heading_steps ::
  "(element \<Rightarrow> string) \<Rightarrow> hierarchy_state \<Rightarrow> (element \<times> element list) list \<Rightarrow>
     error + hierarchy_state" where
  "heading_steps str_of hs [] = Inr hs"
| "heading_steps str_of hs (ts # rest) =
     (case heading_step str_of hs ts of
        Inl e \<Rightarrow> Inl e
      | Inr hs' \<Rightarrow> heading_steps str_of hs' rest)"

text \<open>
  \<^verbatim>\<open>html_to_hierarchical_json\<close>, from the parsed document: the mapping with the one key
  \<open>filename\<close>.
\<close>

definition html_to_hierarchical_json ::
  "(element \<Rightarrow> string) \<Rightarrow> element list \<Rightarrow> string \<Rightarrow>
     error + (string \<times> (string \<times> heading_section) list) list" where
  "html_to_hierarchical_json str_of soup filename =
     (case heading_steps str_of \<lparr>root = [], stack = []\<rparr> (find_all_headings soup) of
        Inl e \<Rightarrow> Inl e
      | Inr hs \<Rightarrow> Inr [(filename, root hs)])"


section \<open>Example notebooks\<close>

definition example_fs :: filesystem where
  "example_fs = \<lparr>dirs = [''dir''], files = []\<rparr>"

definition image_output :: "string \<Rightarrow> output" where
  "image_output img =
     \<lparr>output_type = Some ''display_data'', output_name = None, output_text = None,
      output_data = Some [(''image/png'', img)], output_traceback = None\<rparr>"

definition stdout_output :: "string \<Rightarrow> output" where
  "stdout_output t =
     \<lparr>output_type = Some ''stream'', output_name = Some ''stdout'', output_text = Some t,
      output_data = None, output_traceback = None\<rparr>"

definition error_output :: "string list \<Rightarrow> output" where
  "error_output tb =
     \<lparr>output_type = Some ''error'', output_name = None, output_text = None,
      output_data = None, output_traceback = Some tb\<rparr>"

definition code_cell :: "string \<Rightarrow> output list \<Rightarrow> cell" where
  "code_cell src outs = \<lparr>cell_type = ''code'', source = src, outputs = Some outs\<rparr>"

definition markdown_cell :: "string \<Rightarrow> cell" where
  "markdown_cell src = \<lparr>cell_type = ''markdown'', source = src, outputs = None\<rparr>"


text \<open>A code cell with ten image outputs.\<close>

definition ten_images :: notebook where
  "ten_images = \<lparr>cells = [code_cell ''plots()'' (replicate 10 (image_output ''iVBORw0KGgo=''))]\<rparr>"


section \<open>The heading text as the specification words it\<close>

text \<open>
  The specification's reading of the heading text: everything after the first occurrence of
  the separator, that is the pieces after the first, with the separators between them put
  back. Used only for comparison with what the renderer emits.
\<close>

definition heading_text_after_first_separator :: "string \<Rightarrow> string" where
  "heading_text_after_first_separator markdown_content =
     join ''# '' (tl (split_from [] markdown_content (CHR ''#'') '' ''))"


section \<open>Example documents\<close>

text \<open>
  A heading cell as the renderer emits it and the parser reads it back, and a document of
  four of them at the levels 1, 2, 3, 2.
\<close>

definition heading_div :: "string \<Rightarrow> string \<Rightarrow> element" where
  "heading_div h title =
     Tag ''div'' [(''class'', ''markdown-cell'')]
       [NavigableString (NL @ TAB),
        Tag h [] [NavigableString (NL @ TAB @ TAB @ title @ NL @ TAB)],
        NavigableString NL]"

definition nested_example :: "element list" where
  "nested_example =
     [heading_div ''h1'' ''A'', NavigableString NL, heading_div ''h2'' ''B'', NavigableString NL,
      heading_div ''h3'' ''C'', NavigableString NL, heading_div ''h2'' ''D'']"

text \<open>A document with a paragraph after each of two headings, all under one parent.\<close>

definition text_tag :: "string \<Rightarrow> string \<Rightarrow> element" where
  "text_tag nm s = Tag nm [] [NavigableString s]"

definition flat_example :: "element list" where
  "flat_example =
     [text_tag ''h1'' ''A'', text_tag ''p'' ''x'', text_tag ''h2'' ''B'', text_tag ''p'' ''y'']"


section \<open>The contents of a section as the specification words them\<close>

text \<open>
  The specification's reading of a section's contents: the heading's markup and that of the
  sibling elements that follow it, up to and not including the next heading element. Used
  only for comparison with \<open>section_contents\<close>.
\<close>

definition contents_up_to_next_heading ::
  "(element \<Rightarrow> string) \<Rightarrow> element \<Rightarrow> element list \<Rightarrow> string" where
  "contents_up_to_next_heading str_of tag following =
     str_of tag @
     concat (map str_of
       (takeWhile (\<lambda>sibling. \<not> re_match_heading (tag_name sibling))
          (find_next_siblings following)))"


section \<open>References on the stack\<close>

text \<open>
  Every path on the stack leads to a section of the result, and each path is a prefix of
  the paths above it: the property that makes a path stand for the reference the source
  keeps.
\<close>

definition stack_refers :: "hierarchy_state \<Rightarrow> bool" where
  "stack_refers hs =
     ((\<forall>e \<in> set (stack hs). fst e \<noteq> [] \<and> lookup_path (root hs) (fst e) \<noteq> None) \<and>
      sorted_wrt (\<lambda>a b. prefix (fst b) (fst a)) (stack hs))"


section \<open>Auxiliary facts\<close>

lemmas string_eval =
  html_escape_def html_escape_char_def splitlines_def strip_def is_space_def
  is_line_boundary_def startswith_def

lemma split_from_not_Nil: "split_from cur s p ps \<noteq> []"
  by (induction cur s p ps rule: split_from.induct) auto

lemma list_last_eq: "xs \<noteq> [] \<Longrightarrow> list_last xs = Inr (last xs)"
  by (cases xs rule: rev_cases) (simp_all add: list_last_def)

lemma list_first_eq: "xs \<noteq> [] \<Longrightarrow> list_first xs = Inr (hd xs)"
  by (cases xs) (simp_all add: list_first_def)

lemma count_from_single: "count_from s p [] = count_list s p"
  by (induction s) (auto simp: startswith_def)

lemma str_count_single: "str_count s [p] = count_list s p"
  by (simp add: str_count_def count_from_single)

lemma singleton_case_iff:
  "(case xs of [] \<Rightarrow> False | [l] \<Rightarrow> P l | _ \<Rightarrow> False) \<longleftrightarrow> length xs = 1 \<and> P (hd xs)"
  by (cases xs) (auto split: list.splits)

lemma is_header_cell_iff:
  "is_header_cell mc \<longleftrightarrow>
     (let ls = filter (\<lambda>l. l \<noteq> []) (map strip (splitlines mc))
      in length ls = 1 \<and> take 1 (hd ls) = ''#'')"
  unfolding is_header_cell_def content_lines_def Let_def singleton_case_iff startswith_def
  by simp

lemma process_markdown_eq:
  "process_markdown st src =
     (let mc = html_escape src;
          ls = filter (\<lambda>l. l \<noteq> []) (map strip (splitlines mc))
      in if length ls = 1 \<and> take 1 (hd ls) = ''#''
         then Inr (st\<lparr>html_output := html_output st @
                [heading_block (count_list mc (CHR ''#''))
                   (last (split_from [] mc (CHR ''#'') '' ''))]\<rparr>)
         else Inr (st\<lparr>html_output := html_output st @ [markdown_block mc]\<rparr>))"
  unfolding process_markdown_def Let_def
  by (simp add: is_header_cell_iff Let_def str_split_def list_last_eq split_from_not_Nil
        str_count_single)

lemma process_markdown_frame:
  "\<exists>st'. process_markdown st src = Inr st' \<and> fs st' = fs st \<and> fig_id st' = fig_id st \<and>
         aggregated_output st' = aggregated_output st"
  by (simp add: process_markdown_eq Let_def)

lemma handle_plain_none:
  "map_of (get_data out) ''text/plain'' = None \<Longrightarrow> handle_plain st out = st"
  by (simp add: handle_plain_def)

lemma handle_image_none:
  "map_of (get_data out) ''image/png'' = None \<Longrightarrow>
   handle_image b64decode input_dir filename use_base64 st out = Inr st"
  by (simp add: handle_image_def)

lemma handle_stdout_other:
  "\<not> (output_type out = Some ''stream'' \<and> output_name out = Some ''stdout'') \<Longrightarrow>
   handle_stdout st out = st"
  by (simp add: handle_stdout_def)

lemma handle_error_other:
  "output_type out \<noteq> Some ''error'' \<Longrightarrow> handle_error st out = st"
  by (simp add: handle_error_def)

lemma flush_aggregated_fields [simp]:
  "aggregated_output (flush_aggregated st) = []"
  "fs (flush_aggregated st) = fs st"
  "fig_id (flush_aggregated st) = fig_id st"
  by (simp_all add: flush_aggregated_def)

lemma flush_aggregated_empty: "aggregated_output st = [] \<Longrightarrow> flush_aggregated st = st"
  by (simp add: flush_aggregated_def)

lemma handle_image_base64:
  "map_of (get_data out) ''image/png'' = Some img \<Longrightarrow>
   handle_image b64decode input_dir filename True st out =
     Inr ((flush_aggregated st)\<lparr>html_output :=
            html_output (flush_aggregated st) @ [base64_image_block img]\<rparr>)"
  by (simp add: handle_image_def Let_def)

lemma process_output_base64_frame:
  "\<exists>st'. process_output b64decode input_dir filename True st out = Inr st' \<and>
         fs st' = fs st \<and> fig_id st' = fig_id st"
proof (cases "map_of (get_data out) ''image/png''")
  case None
  then show ?thesis
    by (simp add: process_output_def handle_image_none handle_error_def handle_stdout_def
          handle_plain_def split: option.splits)
next
  case (Some img)
  then show ?thesis
    by (simp add: process_output_def handle_image_base64 handle_error_def handle_stdout_def
          handle_plain_def split: option.splits)
qed

lemma process_outputs_base64_frame:
  "\<exists>st'. process_outputs b64decode input_dir filename True st outs = Inr st' \<and>
         fs st' = fs st \<and> fig_id st' = fig_id st"
proof (induction outs arbitrary: st)
  case Nil
  then show ?case by simp
next
  case (Cons out outs)
  obtain st1 where 1: "process_output b64decode input_dir filename True st out = Inr st1"
    "fs st1 = fs st" "fig_id st1 = fig_id st"
    using process_output_base64_frame by blast
  obtain st2 where 2: "process_outputs b64decode input_dir filename True st1 outs = Inr st2"
    "fs st2 = fs st1" "fig_id st2 = fig_id st1"
    using Cons.IH by blast
  from 1 2 show ?case by simp
qed

lemma process_cell_base64_frame:
  "\<exists>st'. process_cell b64decode input_dir filename True st c = Inr st' \<and> fs st' = fs st"
proof -
  obtain st1 where
    "process_outputs b64decode input_dir filename True
       (st\<lparr>html_output := html_output st @ [code_block (source c)]\<rparr>)
       (case outputs c of None \<Rightarrow> [] | Some outs \<Rightarrow> outs) = Inr st1"
    "fs st1 = fs st"
    using process_outputs_base64_frame
      [of b64decode input_dir filename "st\<lparr>html_output := html_output st @ [code_block (source c)]\<rparr>"]
    by auto
  moreover obtain st2 where "process_markdown st (source c) = Inr st2" "fs st2 = fs st"
    using process_markdown_frame by blast
  ultimately show ?thesis
    by (simp add: process_cell_def)
qed

lemma process_cells_base64_frame:
  "\<exists>st'. process_cells b64decode input_dir filename True st cs = Inr st' \<and> fs st' = fs st"
proof (induction cs arbitrary: st)
  case Nil
  then show ?case by simp
next
  case (Cons c cs)
  obtain st1 where 1: "process_cell b64decode input_dir filename True st c = Inr st1"
    "fs st1 = fs st"
    using process_cell_base64_frame by blast
  obtain st2 where 2: "process_cells b64decode input_dir filename True st1 cs = Inr st2"
    "fs st2 = fs st1"
    using Cons.IH by blast
  from 1 2 show ?case by simp
qed

lemma handle_plain_appends:
  "\<exists>more. handle_plain st out = st\<lparr>aggregated_output := aggregated_output st @ more\<rparr>"
proof (cases "map_of (get_data out) ''text/plain''")
  case None
  then show ?thesis
    by (intro exI[of _ "[]"]) (simp add: handle_plain_def)
next
  case (Some a)
  then show ?thesis
    by (intro exI[of _ "NL @ TAB @ TAB @ html_escape a"]) (simp add: handle_plain_def)
qed

lemma handle_stdout_appends:
  "\<exists>more. handle_stdout st out = st\<lparr>aggregated_output := aggregated_output st @ more\<rparr>"
proof (cases "output_type out = Some ''stream'' \<and> output_name out = Some ''stdout''")
  case True
  then show ?thesis
    by (intro exI[of _ "NL @ TAB @ TAB @
          html_escape (case output_text out of None \<Rightarrow> [] | Some t \<Rightarrow> t)"])
       (simp add: handle_stdout_def)
next
  case False
  then show ?thesis
    by (intro exI[of _ "[]"]) (simp add: handle_stdout_def)
qed

lemma handle_text_appends:
  "\<exists>more. handle_stdout (handle_plain st out) out =
     st\<lparr>aggregated_output := aggregated_output st @ more\<rparr>"
proof -
  obtain m1 where 1: "handle_plain st out = st\<lparr>aggregated_output := aggregated_output st @ m1\<rparr>"
    using handle_plain_appends by blast
  obtain m2 where 2: "handle_stdout (handle_plain st out) out =
      (handle_plain st out)\<lparr>aggregated_output := aggregated_output (handle_plain st out) @ m2\<rparr>"
    using handle_stdout_appends by blast
  have "handle_stdout (handle_plain st out) out =
      st\<lparr>aggregated_output := aggregated_output st @ (m1 @ m2)\<rparr>"
    by (subst 2, subst (1 2) 1) simp
  then show ?thesis by blast
qed

lemma process_cell_code:
  "cell_type c = ''code'' \<Longrightarrow>
   process_cell b64decode input_dir filename use_base64 st c =
     (case process_outputs b64decode input_dir filename use_base64
             (st\<lparr>html_output := html_output st @ [code_block (source c)]\<rparr>)
             (case outputs c of None \<Rightarrow> [] | Some outs \<Rightarrow> outs) of
        Inl e \<Rightarrow> Inl e
      | Inr st' \<Rightarrow> Inr (flush_aggregated st'))"
  by (simp add: process_cell_def)

lemma process_cell_buffer:
  assumes "aggregated_output st = []"
    and "process_cell b64decode input_dir filename use_base64 st c = Inr st'"
  shows "aggregated_output st' = []"
proof (cases "cell_type c = ''code''")
  case True
  with assms(2) show ?thesis
    by (auto simp: process_cell_code split: sum.splits)
next
  case False
  obtain st2 where "process_markdown st (source c) = Inr st2"
    "aggregated_output st2 = aggregated_output st"
    using process_markdown_frame by blast
  with False assms show ?thesis
    by (auto simp: process_cell_def split: if_splits)
qed

lemma process_cells_buffer:
  "aggregated_output st = [] \<Longrightarrow>
   process_cells b64decode input_dir filename use_base64 st cs = Inr st' \<Longrightarrow>
   aggregated_output st' = []"
proof (induction cs arbitrary: st)
  case Nil
  then show ?case by simp
next
  case (Cons c cs)
  then show ?case
    by (auto split: sum.splits dest: process_cell_buffer)
qed

lemmas render_eval =
  process_cell_def process_output_def handle_plain_def handle_stdout_def handle_image_def
  handle_error_def flush_aggregated_def get_data_def initial_state_def

lemma html_escape_no_angle:
  "CHR ''<'' \<notin> set (html_escape s) \<and> CHR ''>'' \<notin> set (html_escape s)"
  by (induction s) (auto simp: html_escape_def html_escape_char_def)

lemma startswith_sublist: "startswith s sep \<Longrightarrow> sublist sep s"
  unfolding startswith_def sublist_def
  by (metis append_Nil append_take_drop_id)

lemma split_from_no_separator:
  "\<not> sublist ''# '' t \<Longrightarrow> split_from cur t (CHR ''#'') '' '' = [cur @ t]"
proof (induction t arbitrary: cur)
  case Nil
  then show ?case by simp
next
  case (Cons c cs)
  have "\<not> startswith (c # cs) ''# ''"
    using Cons.prems startswith_sublist by blast
  moreover have "\<not> sublist ''# '' cs"
    using Cons.prems by (simp add: sublist_Cons_right)
  ultimately show ?case
    using Cons.IH [of "cur @ [c]"] by simp
qed

lemma last_split_from:
  "\<not> sublist ''# '' t \<Longrightarrow> last (split_from cur (pre @ ''# '' @ t) (CHR ''#'') '' '') = t"
proof (induction "length pre" arbitrary: pre cur rule: less_induct)
  case less
  show ?case
  proof (cases pre)
    case Nil
    then show ?thesis
      using less.prems by (simp add: startswith_def split_from_no_separator)
  next
    case (Cons c rest)
    note pre = this
    show ?thesis
    proof (cases rest)
      case Nil
      with pre less.hyps [of "[]" "cur @ [c]"] less.prems show ?thesis
        by (simp add: startswith_def)
    next
      case (Cons d rest')
      show ?thesis
      proof (cases "c = CHR ''#'' \<and> d = CHR '' ''")
        case True
        with pre Cons less.hyps [of rest' "[]"] less.prems show ?thesis
          by (simp add: startswith_def split_from_not_Nil)
      next
        case False
        with pre Cons less.hyps [of rest "cur @ [c]"] less.prems show ?thesis
          by (auto simp: startswith_def)
      qed
    qed
  qed
qed

lemma process_markdown_header:
  "is_header_cell (html_escape src) \<Longrightarrow>
   process_markdown st src =
     Inr (st\<lparr>html_output := html_output st @
            [heading_block (count_list (html_escape src) (CHR ''#''))
               (last (split_from [] (html_escape src) (CHR ''#'') '' ''))]\<rparr>)"
  by (simp add: process_markdown_def Let_def str_split_def list_last_eq split_from_not_Nil
        str_count_single)

lemmas soup_eval =
  find_all_headings_def find_next_siblings_def section_contents_def get_text_def
  heading_div_def strip_def is_space_def attr_markup_def minimal_escape_char_def

lemma map_of_dict_set: "map_of (dict_set k v d) = (map_of d)(k \<mapsto> v)"
  by (induction d) auto

lemma lookup_path_Cons:
  "q \<noteq> [] \<Longrightarrow>
   lookup_path d (k # q) =
     (case map_of d k of
        Some (Section c (Some subs)) \<Rightarrow> lookup_path subs q
      | _ \<Rightarrow> None)"
  by (cases q) (simp_all split: option.splits heading_section.splits)

lemma lookup_path_single: "lookup_path d [k] = map_of d k"
  by simp

lemma lookup_path_head:
  assumes "lookup_path d (k # q) \<noteq> None"
  shows "\<exists>c subs. map_of d k = Some (Section c subs) \<and>
           (q \<noteq> [] \<longrightarrow> (\<exists>m. subs = Some m \<and> lookup_path m q \<noteq> None))"
proof (cases q)
  case Nil
  with assms obtain sec where "map_of d k = Some sec" by auto
  moreover obtain c subs where "sec = Section c subs" by (cases sec)
  ultimately show ?thesis using Nil by simp
next
  case (Cons k' ks)
  with assms show ?thesis
    by (auto split: option.splits heading_section.splits)
qed

lemma attach_Cons_found:
  "map_of d k = Some (Section c subs) \<Longrightarrow>
   attach (k # path) t s d =
     dict_set k
       (Section c (Some (attach path t s (case subs of None \<Rightarrow> [] | Some m \<Rightarrow> m)))) d"
  by simp

lemma lookup_attach_new:
  "p = [] \<or> lookup_path d p \<noteq> None \<Longrightarrow>
   lookup_path (attach p t s d) (p @ [t]) = Some s"
proof (induction p arbitrary: d)
  case Nil
  then show ?case by (simp add: map_of_dict_set)
next
  case (Cons k path)
  then have found: "lookup_path d (k # path) \<noteq> None" by simp
  from found obtain c subs where m: "map_of d k = Some (Section c subs)"
    and sub: "path \<noteq> [] \<longrightarrow> (\<exists>m. subs = Some m \<and> lookup_path m path \<noteq> None)"
    using lookup_path_head [of d k path] by auto
  define below where "below = (case subs of None \<Rightarrow> [] | Some m \<Rightarrow> m)"
  have "path = [] \<or> lookup_path below path \<noteq> None"
    using sub by (auto simp: below_def)
  then have IH: "lookup_path (attach path t s below) (path @ [t]) = Some s"
    by (rule Cons.IH)
  have "attach (k # path) t s d = dict_set k (Section c (Some (attach path t s below))) d"
    using m by (simp only: attach_Cons_found below_def)
  moreover have "lookup_path (dict_set k (Section c (Some (attach path t s below))) d)
      (k # (path @ [t])) = lookup_path (attach path t s below) (path @ [t])"
    by (simp add: lookup_path_Cons map_of_dict_set)
  ultimately show ?case using IH by simp
qed

lemma lookup_attach_prefix:
  "lookup_path d p \<noteq> None \<Longrightarrow> prefix q p \<Longrightarrow> q \<noteq> [] \<Longrightarrow>
   lookup_path (attach p t s d) q \<noteq> None"
proof (induction p arbitrary: d q)
  case Nil
  then show ?case by simp
next
  case (Cons k path)
  from Cons.prems obtain q' where q: "q = k # q'" and pre: "prefix q' path"
    by (cases q) auto
  from Cons.prems(1) obtain c subs where m: "map_of d k = Some (Section c subs)"
    and sub: "path \<noteq> [] \<longrightarrow> (\<exists>m. subs = Some m \<and> lookup_path m path \<noteq> None)"
    using lookup_path_head [of d k path] by auto
  define below where "below = (case subs of None \<Rightarrow> [] | Some m \<Rightarrow> m)"
  have att: "attach (k # path) t s d =
      dict_set k (Section c (Some (attach path t s below))) d"
    using m by (simp only: attach_Cons_found below_def)
  show ?case
  proof (cases "q' = []")
    case True
    with q att show ?thesis
      by (simp add: map_of_dict_set)
  next
    case False
    with pre have "path \<noteq> []" by auto
    with sub have "lookup_path below path \<noteq> None"
      by (auto simp: below_def)
    then have "lookup_path (attach path t s below) q' \<noteq> None"
      using pre False by (rule Cons.IH)
    moreover have "lookup_path (dict_set k (Section c (Some (attach path t s below))) d)
        (k # q') = lookup_path (attach path t s below) q'"
      using False by (simp add: lookup_path_Cons map_of_dict_set)
    ultimately show ?thesis using q att by simp
  qed
qed


lemma stack_refers_dropWhile:
  assumes "stack_refers hs"
  shows "stack_refers (hs\<lparr>stack := dropWhile P (stack hs)\<rparr>)"
proof -
  have "set (dropWhile P (stack hs)) \<subseteq> set (stack hs)"
    by (auto dest: set_dropWhileD)
  moreover have "sorted_wrt (\<lambda>a b. prefix (fst b) (fst a)) (dropWhile P (stack hs))"
    using assms unfolding stack_refers_def dropWhile_eq_drop by (simp add: sorted_wrt_drop)
  ultimately show ?thesis
    using assms unfolding stack_refers_def by auto
qed

lemma heading_step_top:
  assumes inv: "stack_refers hs"
    and step: "heading_step str_of hs ts = Inr hs'"
  shows "stack_refers hs' \<and>
         (\<exists>path level rest. stack hs' = (path, level) # rest \<and>
            lookup_path (root hs') path =
              Some (Section (section_contents str_of (fst ts) (snd ts)) None))"
proof -
  from step obtain level where lvl: "heading_level (tag_name (fst ts)) = Inr level"
    by (auto simp: heading_step_def split: sum.splits)
  define title where "title = get_text (fst ts)"
  define sec where "sec = Section (section_contents str_of (fst ts) (snd ts)) None"
  define stack1 where "stack1 = dropWhile (\<lambda>entry. snd entry \<ge> level) (stack hs)"
  have inv1: "stack_refers (hs\<lparr>stack := stack1\<rparr>)"
    unfolding stack1_def using inv by (rule stack_refers_dropWhile)
  have eq: "heading_step str_of hs ts =
      (case stack1 of
         [] \<Rightarrow> Inr \<lparr>root = dict_set title sec (root hs), stack = [([title], level)]\<rparr>
       | (parent, l) # below \<Rightarrow>
           Inr \<lparr>root = attach parent title sec (root hs),
                stack = (parent @ [title], level) # stack1\<rparr>)"
    unfolding heading_step_def lvl title_def sec_def stack1_def by (simp add: Let_def)
  show ?thesis
  proof (cases stack1)
    case Nil
    with step eq have hs': "hs' = \<lparr>root = dict_set title sec (root hs),
        stack = [([title], level)]\<rparr>"
      by simp
    then show ?thesis
      by (simp add: stack_refers_def map_of_dict_set sec_def)
  next
    case (Cons top below)
    obtain parent l where top: "top = (parent, l)" by (cases top)
    with Cons step eq have hs': "hs' = \<lparr>root = attach parent title sec (root hs),
        stack = (parent @ [title], level) # stack1\<rparr>"
      by simp
    have parent: "parent \<noteq> []" "lookup_path (root hs) parent \<noteq> None"
      using inv1 Cons top by (auto simp: stack_refers_def)
    have below: "\<forall>e \<in> set stack1. fst e \<noteq> [] \<and> lookup_path (root hs) (fst e) \<noteq> None \<and>
        prefix (fst e) parent"
      using inv1 Cons top by (auto simp: stack_refers_def)
    have sorted1: "sorted_wrt (\<lambda>a b. prefix (fst b) (fst a)) stack1"
      using inv1 by (simp add: stack_refers_def)
    have new: "lookup_path (attach parent title sec (root hs)) (parent @ [title]) = Some sec"
      using parent by (simp add: lookup_attach_new)
    have old: "\<forall>e \<in> set stack1.
        lookup_path (attach parent title sec (root hs)) (fst e) \<noteq> None"
    proof
      fix e
      assume "e \<in> set stack1"
      with below have "prefix (fst e) parent" and "fst e \<noteq> []"
        by auto
      with parent(2) show "lookup_path (attach parent title sec (root hs)) (fst e) \<noteq> None"
        by (rule lookup_attach_prefix)
    qed
    have pre: "\<forall>e \<in> set stack1. prefix (fst e) (parent @ [title])"
      using below by (auto intro: prefix_order.trans)
    have "stack_refers hs'"
      unfolding stack_refers_def hs'
      using new old pre below sorted1 by auto
    then show ?thesis
      using new by (simp add: hs' sec_def)
  qed
qed

lemma heading_steps_append:
  "heading_steps str_of hs (xs @ ys) =
     (case heading_steps str_of hs xs of
        Inl e \<Rightarrow> Inl e
      | Inr hs' \<Rightarrow> heading_steps str_of hs' ys)"
  by (induction xs arbitrary: hs) (auto split: sum.splits)

lemma heading_steps_refers:
  "stack_refers hs \<Longrightarrow> heading_steps str_of hs xs = Inr hs' \<Longrightarrow> stack_refers hs'"
proof (induction xs arbitrary: hs)
  case Nil
  then show ?case by simp
next
  case (Cons x xs)
  then show ?case
    by (auto split: sum.splits dest: heading_step_top)
qed

lemma stack_refers_initial: "stack_refers \<lparr>root = [], stack = []\<rparr>"
  by (simp add: stack_refers_def)

lemmas flat_eval =
  flat_example_def text_tag_def find_all_headings_def find_next_siblings_def
  section_contents_def get_text_def strip_def is_space_def minimal_escape_char_def
  heading_step_def heading_level_def int_of_char_def


section \<open>Markdown cells\<close>

text \<open>
  Claim C5. A markdown cell is a heading cell exactly when the escaped source, its lines
  stripped and the blank ones removed, is one line that starts with a hash. A heading cell
  is rendered as a heading whose level is the number of all hash characters of the escaped
  source, wherever they stand; any other cell is rendered as a generic markdown block
  around the escaped source. A markdown cell never raises.
\<close>

theorem markdown_cell_heading_level:
  "process_markdown st src =
     (let mc = html_escape src;
          ls = filter (\<lambda>l. l \<noteq> []) (map strip (splitlines mc))
      in if length ls = 1 \<and> take 1 (hd ls) = ''#''
         then Inr (st\<lparr>html_output := html_output st @
                [heading_block (count_list mc (CHR ''#''))
                   (last (split_from [] mc (CHR ''#'') '' ''))]\<rparr>)
         else Inr (st\<lparr>html_output := html_output st @ [markdown_block mc]\<rparr>))"
  by (rule process_markdown_eq)

text \<open>
  The level counts every hash: the apostrophe of this second-level heading is escaped to a
  character reference, which holds a third one.
\<close>

theorem markdown_cell_heading_level_witness:
  "process_markdown (initial_state \<lparr>dirs = [], files = []\<rparr>) (''## It'' @ APOS @ ''s'' @ NL)
   = Inr ((initial_state \<lparr>dirs = [], files = []\<rparr>)
            \<lparr>html_output := [heading_block 3 (''It&#x27;s'' @ NL)]\<rparr>)"
  using markdown_cell_heading_level
    [of "initial_state \<lparr>dirs = [], files = []\<rparr>" "''## It'' @ APOS @ ''s'' @ NL"]
  by (simp add: string_eval initial_state_def numeral_3_eq_3)


section \<open>Outputs of code cells\<close>

text \<open>
  Claim C10. An output that carries no \<^verbatim>\<open>text/plain\<close> data and no \<^verbatim>\<open>image/png\<close> data, is not
  a stream named \<^verbatim>\<open>stdout\<close> and is not of type \<^verbatim>\<open>error\<close> leaves the whole state as it was: no
  fragment is emitted and the aggregation buffer is unchanged. A stream of another name,
  such as \<^verbatim>\<open>stderr\<close>, is such an output, since a stream carries no data mapping.
\<close>

theorem unhandled_output_dropped:
  assumes "map_of (get_data out) ''text/plain'' = None"
    and "map_of (get_data out) ''image/png'' = None"
    and "\<not> (output_type out = Some ''stream'' \<and> output_name out = Some ''stdout'')"
    and "output_type out \<noteq> Some ''error''"
  shows "process_output b64decode input_dir filename use_base64 st out = Inr st"
  using assms
  by (simp add: process_output_def handle_plain_none handle_image_none handle_stdout_other
        handle_error_other)

theorem unhandled_output_dropped_witness:
  "process_output Some ''dir'' ''nb.ipynb'' False
     \<lparr>html_output = [''x''], fig_id = 2, aggregated_output = ''pending'',
      fs = \<lparr>dirs = [], files = []\<rparr>\<rparr>
     \<lparr>output_type = Some ''stream'', output_name = Some ''stderr'',
      output_text = Some ''warning'', output_data = None, output_traceback = None\<rparr>
   = Inr \<lparr>html_output = [''x''], fig_id = 2, aggregated_output = ''pending'',
          fs = \<lparr>dirs = [], files = []\<rparr>\<rparr>"
  by (rule unhandled_output_dropped) (simp_all add: get_data_def)

text \<open>
  Claim C3. An output of type \<^verbatim>\<open>error\<close> (which, as the notebook format has it, carries no data
  mapping) is emitted at once as one preformatted block around its traceback lines joined by
  newlines, and changes nothing else: the aggregation buffer is neither flushed nor extended.
  No output without an image payload flushes the buffer: such an output only extends the
  buffer and emits at most its error block. An output with an image payload, met with
  pending text, emits that text as an \<^verbatim>\<open>Out:\<close> block before anything of its own and leaves the
  buffer empty.
\<close>

theorem error_output_no_flush:
  "(output_type out = Some ''error'' \<longrightarrow>
    map_of (get_data out) ''text/plain'' = None \<longrightarrow>
    map_of (get_data out) ''image/png'' = None \<longrightarrow>
      process_output b64decode input_dir filename use_base64 st out =
        Inr (st\<lparr>html_output := html_output st @
               [error_block (join NL (case output_traceback out of None \<Rightarrow> [] | Some t \<Rightarrow> t))]\<rparr>))
   \<and>
   (map_of (get_data out) ''image/png'' = None \<longrightarrow>
      (\<exists>more. process_output b64decode input_dir filename use_base64 st out =
         Inr (st\<lparr>aggregated_output := aggregated_output st @ more,
                 html_output := html_output st @
                   (if output_type out = Some ''error''
                    then [error_block
                            (join NL (case output_traceback out of None \<Rightarrow> [] | Some t \<Rightarrow> t))]
                    else [])\<rparr>)))
   \<and>
   (map_of (get_data out) ''image/png'' = Some img \<longrightarrow>
    aggregated_output st \<noteq> [] \<longrightarrow>
    process_output b64decode input_dir filename use_base64 st out = Inr st' \<longrightarrow>
      (\<exists>more blocks.
         html_output st' = html_output st @ out_block (aggregated_output st @ more) # blocks) \<and>
      aggregated_output st' = [])"
proof (intro conjI impI)
  assume "output_type out = Some ''error''" "map_of (get_data out) ''text/plain'' = None"
    "map_of (get_data out) ''image/png'' = None"
  then show "process_output b64decode input_dir filename use_base64 st out =
        Inr (st\<lparr>html_output := html_output st @
               [error_block (join NL (case output_traceback out of None \<Rightarrow> [] | Some t \<Rightarrow> t))]\<rparr>)"
    by (simp add: process_output_def handle_plain_none handle_stdout_other handle_image_none
          handle_error_def)
next
  assume "map_of (get_data out) ''image/png'' = None"
  then show "\<exists>more. process_output b64decode input_dir filename use_base64 st out =
         Inr (st\<lparr>aggregated_output := aggregated_output st @ more,
                 html_output := html_output st @
                   (if output_type out = Some ''error''
                    then [error_block
                            (join NL (case output_traceback out of None \<Rightarrow> [] | Some t \<Rightarrow> t))]
                    else [])\<rparr>)"
    using handle_text_appends [of st out]
    by (auto simp: process_output_def handle_image_none handle_error_def)
next
  assume img: "map_of (get_data out) ''image/png'' = Some img"
    and ne: "aggregated_output st \<noteq> []"
    and run: "process_output b64decode input_dir filename use_base64 st out = Inr st'"
  define st2 where "st2 = handle_stdout (handle_plain st out) out"
  obtain more where more: "aggregated_output st2 = aggregated_output st @ more"
    "html_output st2 = html_output st"
    using handle_text_appends [of st out] by (auto simp: st2_def)
  obtain st3 where st3: "handle_image b64decode input_dir filename use_base64 st2 out = Inr st3"
    "st' = handle_error st3 out"
    using run by (auto simp: process_output_def st2_def split: sum.splits)
  have fl: "html_output (flush_aggregated st2) =
      html_output st @ [out_block (aggregated_output st @ more)]"
    using more ne by (simp add: flush_aggregated_def)
  have "(\<exists>blocks. html_output st3 = html_output (flush_aggregated st2) @ blocks) \<and>
        aggregated_output st3 = []"
    using st3(1) img
    by (auto simp: handle_image_def Let_def split: if_splits sum.splits)
  then obtain blocks where b: "html_output st3 = html_output (flush_aggregated st2) @ blocks"
    "aggregated_output st3 = []"
    by blast
  have "\<exists>blocks'. html_output st' = html_output st3 @ blocks'"
    "aggregated_output st' = aggregated_output st3"
    by (simp_all add: st3(2) handle_error_def)
  with b fl show "\<exists>more blocks.
         html_output st' = html_output st @ out_block (aggregated_output st @ more) # blocks"
    and "aggregated_output st' = []"
    by auto
qed

theorem error_output_no_flush_witness:
  "process_output Some ''dir'' ''nb.ipynb'' True
     ((initial_state example_fs)\<lparr>aggregated_output := ''pending''\<rparr>)
     (error_output [''Traceback'', ''ZeroDivisionError''])
   = Inr ((initial_state example_fs)
            \<lparr>aggregated_output := ''pending'',
             html_output := [error_block (''Traceback'' @ NL @ ''ZeroDivisionError'')]\<rparr>) \<and>
   process_output Some ''dir'' ''nb.ipynb'' True
     ((initial_state example_fs)\<lparr>aggregated_output := ''pending''\<rparr>)
     (image_output ''iVBORw0KGgo='')
   = Inr ((initial_state example_fs)
            \<lparr>html_output := [out_block ''pending'', base64_image_block ''iVBORw0KGgo='']\<rparr>)"
  using error_output_no_flush
    [of "error_output [''Traceback'', ''ZeroDivisionError'']" Some "''dir''" "''nb.ipynb''" True
        "(initial_state example_fs)\<lparr>aggregated_output := ''pending''\<rparr>"]
    error_output_no_flush
    [of "image_output ''iVBORw0KGgo=''" Some "''dir''" "''nb.ipynb''" True
        "(initial_state example_fs)\<lparr>aggregated_output := ''pending''\<rparr>"
        "''iVBORw0KGgo=''"
        "(initial_state example_fs)
            \<lparr>html_output := [out_block ''pending'', base64_image_block ''iVBORw0KGgo='']\<rparr>"]
  by (simp add: error_output_def image_output_def get_data_def initial_state_def
        process_output_def handle_plain_def handle_stdout_def handle_image_def handle_error_def
        flush_aggregated_def)

text \<open>
  Claim C8. With \<open>use_base64\<close> set, rendering a notebook always returns, and leaves the file
  system exactly as it found it: no file is written and no directory made. An image payload
  then only appends its data-URI fragment to the markup, after the flush of pending text that
  every image payload starts with.
\<close>

theorem base64_mode_leaves_filesystem:
  "(\<exists>markup. extract_html_from_notebook b64decode fs0 nb input_dir filename True
               = Inr (markup, fs0)) \<and>
   (map_of (get_data out) ''image/png'' = Some img \<longrightarrow>
    map_of (get_data out) ''text/plain'' = None \<longrightarrow>
    \<not> (output_type out = Some ''stream'' \<and> output_name out = Some ''stdout'') \<longrightarrow>
    output_type out \<noteq> Some ''error'' \<longrightarrow>
      process_output b64decode input_dir filename True st out =
        Inr ((flush_aggregated st)\<lparr>html_output :=
               html_output (flush_aggregated st) @ [base64_image_block img]\<rparr>))"
proof (intro conjI impI)
  obtain st' where
    "process_cells b64decode input_dir filename True (initial_state fs0) (cells nb) = Inr st'"
    "fs st' = fs (initial_state fs0)"
    using process_cells_base64_frame by blast
  then show "\<exists>markup. extract_html_from_notebook b64decode fs0 nb input_dir filename True
               = Inr (markup, fs0)"
    by (simp add: extract_html_from_notebook_def initial_state_def)
next
  assume "map_of (get_data out) ''image/png'' = Some img"
    "map_of (get_data out) ''text/plain'' = None"
    "\<not> (output_type out = Some ''stream'' \<and> output_name out = Some ''stdout'')"
    "output_type out \<noteq> Some ''error''"
  then show "process_output b64decode input_dir filename True st out =
        Inr ((flush_aggregated st)\<lparr>html_output :=
               html_output (flush_aggregated st) @ [base64_image_block img]\<rparr>)"
    by (simp add: process_output_def handle_plain_none handle_stdout_other handle_error_other
          handle_image_base64)
qed

theorem base64_mode_leaves_filesystem_witness:
  "(\<exists>markup. extract_html_from_notebook Some example_fs
       \<lparr>cells = [code_cell ''plot()'' [stdout_output ''1'', image_output ''iVBORw0KGgo='']]\<rparr>
       ''dir'' ''nb.ipynb'' True = Inr (markup, example_fs)) \<and>
   process_output Some ''dir'' ''nb.ipynb'' True
     ((initial_state example_fs)\<lparr>aggregated_output := ''1''\<rparr>) (image_output ''iVBORw0KGgo='')
   = Inr ((initial_state example_fs)
            \<lparr>html_output := [out_block ''1'', base64_image_block ''iVBORw0KGgo='']\<rparr>)"
  using base64_mode_leaves_filesystem
    [of Some example_fs
        "\<lparr>cells = [code_cell ''plot()'' [stdout_output ''1'', image_output ''iVBORw0KGgo='']]\<rparr>"
        "''dir''" "''nb.ipynb''" "image_output ''iVBORw0KGgo=''" "''iVBORw0KGgo=''"
        "(initial_state example_fs)\<lparr>aggregated_output := ''1''\<rparr>"]
  by (simp add: image_output_def get_data_def flush_aggregated_def initial_state_def)


section \<open>The aggregation buffer between cells\<close>

text \<open>
  Claim C9. The aggregation buffer is empty before every cell: whatever prefix of the cells
  has been processed, the buffer is empty afterwards. A code cell ends by emitting what its
  outputs left in the buffer as one \<^verbatim>\<open>Out:\<close> block and emptying the buffer, so no text of one
  cell reaches a block of a later one.
\<close>

theorem buffer_empty_between_cells:
  "(process_cells b64decode input_dir filename use_base64 (initial_state fs0) (take n (cells nb))
      = Inr st \<longrightarrow> aggregated_output st = []) \<and>
   (cell_type c = ''code'' \<longrightarrow>
    process_cell b64decode input_dir filename use_base64 st0 c = Inr st1 \<longrightarrow>
      aggregated_output st1 = [] \<and>
      (\<exists>st'. process_outputs b64decode input_dir filename use_base64
                (st0\<lparr>html_output := html_output st0 @ [code_block (source c)]\<rparr>)
                (case outputs c of None \<Rightarrow> [] | Some outs \<Rightarrow> outs) = Inr st' \<and>
             st1 = (if aggregated_output st' \<noteq> []
                    then st'\<lparr>html_output := html_output st' @ [out_block (aggregated_output st')],
                             aggregated_output := []\<rparr>
                    else st')))"
proof (intro conjI impI)
  assume "process_cells b64decode input_dir filename use_base64 (initial_state fs0)
            (take n (cells nb)) = Inr st"
  then show "aggregated_output st = []"
    using process_cells_buffer [of "initial_state fs0"] by (simp add: initial_state_def)
next
  assume c: "cell_type c = ''code''"
    and run: "process_cell b64decode input_dir filename use_base64 st0 c = Inr st1"
  from c run show "aggregated_output st1 = []"
    by (auto simp: process_cell_code split: sum.splits)
  from c run show "\<exists>st'. process_outputs b64decode input_dir filename use_base64
                (st0\<lparr>html_output := html_output st0 @ [code_block (source c)]\<rparr>)
                (case outputs c of None \<Rightarrow> [] | Some outs \<Rightarrow> outs) = Inr st' \<and>
             st1 = (if aggregated_output st' \<noteq> []
                    then st'\<lparr>html_output := html_output st' @ [out_block (aggregated_output st')],
                             aggregated_output := []\<rparr>
                    else st')"
    by (auto simp: process_cell_code flush_aggregated_def split: sum.splits)
qed

theorem buffer_empty_between_cells_witness:
  "process_cells Some ''dir'' ''nb.ipynb'' True (initial_state example_fs)
     (take 1 [code_cell ''print(1)'' [stdout_output (''1'' @ NL)], markdown_cell ''text''])
   = Inr ((initial_state example_fs)
            \<lparr>html_output := [code_block ''print(1)'', out_block (NL @ TAB @ TAB @ ''1'' @ NL)]\<rparr>) \<and>
   process_cell Some ''dir'' ''nb.ipynb'' True (initial_state example_fs)
     (code_cell ''print(1)'' [stdout_output (''1'' @ NL)])
   = Inr ((initial_state example_fs)
            \<lparr>html_output := [code_block ''print(1)'', out_block (NL @ TAB @ TAB @ ''1'' @ NL)]\<rparr>)"
  using buffer_empty_between_cells
    [of Some "''dir''" "''nb.ipynb''" True example_fs 1
        "\<lparr>cells = [code_cell ''print(1)'' [stdout_output (''1'' @ NL)], markdown_cell ''text'']\<rparr>"
        "(initial_state example_fs)
            \<lparr>html_output := [code_block ''print(1)'', out_block (NL @ TAB @ TAB @ ''1'' @ NL)]\<rparr>"
        "code_cell ''print(1)'' [stdout_output (''1'' @ NL)]" "initial_state example_fs"
        "(initial_state example_fs)
            \<lparr>html_output := [code_block ''print(1)'', out_block (NL @ TAB @ TAB @ ''1'' @ NL)]\<rparr>"]
  by (simp add: render_eval code_cell_def stdout_output_def html_escape_def html_escape_char_def)


section \<open>The text of a heading\<close>

text \<open>
  Claim C6, as amended. The text of a heading cell is the last piece of the escaped source
  split on \<^verbatim>\<open>"# "\<close>: everything after the last occurrence of the separator, and the whole
  escaped source when the separator does not occur in it.
\<close>

theorem heading_text_after_last_separator:
  assumes "is_header_cell (html_escape src)"
  shows "(html_escape src = pre @ ''# '' @ t \<and> \<not> sublist ''# '' t \<longrightarrow>
            process_markdown st src =
              Inr (st\<lparr>html_output := html_output st @
                     [heading_block (count_list (html_escape src) (CHR ''#'')) t]\<rparr>)) \<and>
         (\<not> sublist ''# '' (html_escape src) \<longrightarrow>
            process_markdown st src =
              Inr (st\<lparr>html_output := html_output st @
                     [heading_block (count_list (html_escape src) (CHR ''#''))
                        (html_escape src)]\<rparr>))"
proof (intro conjI impI)
  assume "html_escape src = pre @ ''# '' @ t \<and> \<not> sublist ''# '' t"
  then have "last (split_from [] (html_escape src) (CHR ''#'') '' '') = t"
    using last_split_from [of t "[]" pre] by simp
  then show "process_markdown st src =
      Inr (st\<lparr>html_output := html_output st @
             [heading_block (count_list (html_escape src) (CHR ''#'')) t]\<rparr>)"
    using assms by (simp add: process_markdown_header)
next
  assume "\<not> sublist ''# '' (html_escape src)"
  then have "split_from [] (html_escape src) (CHR ''#'') '' '' = [html_escape src]"
    using split_from_no_separator [of "html_escape src" "[]"] by simp
  then show "process_markdown st src =
      Inr (st\<lparr>html_output := html_output st @
             [heading_block (count_list (html_escape src) (CHR ''#'')) (html_escape src)]\<rparr>)"
    using assms by (simp add: process_markdown_header)
qed

theorem heading_text_after_last_separator_witness:
  "process_markdown (initial_state example_fs) ''# A # B'' =
     Inr ((initial_state example_fs)\<lparr>html_output := [heading_block 2 ''B'']\<rparr>) \<and>
   process_markdown (initial_state example_fs) ''#Title'' =
     Inr ((initial_state example_fs)\<lparr>html_output := [heading_block 1 ''#Title'']\<rparr>)"
  using heading_text_after_last_separator
      [of "''# A # B''" "''# A ''" "''B''" "initial_state example_fs"]
    heading_text_after_last_separator
      [of "''#Title''" "[]" "[]" "initial_state example_fs"]
  by (simp add: is_header_cell_def content_lines_def string_eval initial_state_def
        sublist_Cons_right prefix_Cons numeral_2_eq_2)

text \<open>
  Claim C6, as stated, fails: a heading line with a second separator keeps only the text after
  that second separator, not the text after the first.
\<close>

theorem heading_text_first_separator_counterexample:
  "heading_text_after_first_separator (html_escape ''# A # B'') = ''A # B'' \<and>
   process_markdown (initial_state example_fs) ''# A # B'' =
     Inr ((initial_state example_fs)\<lparr>html_output := [heading_block 2 ''B'']\<rparr>) \<and>
   heading_block 2 ''B'' \<noteq> heading_block 2 ''A # B''"
  by code_simp


section \<open>Escaping\<close>

text \<open>
  Claim C2 does not hold of the renderer. Markdown sources, \<^verbatim>\<open>text/plain\<close> payloads and standard
  output pass through \<open>html_escape\<close>, whose result holds no angle bracket
  (\<open>html_escape_no_angle\<close>); the source of a code cell and the traceback of an error output
  are emitted as they are. Here the less-than sign of the source and the angle brackets of
  the traceback line reach the markup unescaped.
\<close>

theorem code_source_emitted_unescaped:
  "extract_html_from_notebook Some example_fs
     \<lparr>cells = [code_cell ''a<b'' [error_output [''<module>'']]]\<rparr> ''dir'' ''nb.ipynb'' False
   = Inr (''<div class='code-cell'>'' @ NL @ TAB @ ''<code class='language-python'>'' @
          NL @ TAB @ TAB @ ''a<b'' @ NL @ TAB @ ''</code>'' @ NL @ ''</div>'' @ NL @
          ''<div class='output-cell error'>'' @ NL @ TAB @ ''<pre>'' @
          NL @ TAB @ TAB @ ''<module>'' @ NL @ TAB @ ''</pre>'' @ NL @ ''</div>'',
          example_fs)"
  by code_simp


section \<open>Image file names\<close>

text \<open>
  Claim C4 does not hold of the renderer at the tenth image. The zero is prefixed while the
  number is at most ten, so the ninth image is \<^verbatim>\<open>fig_09.png\<close>, the tenth \<^verbatim>\<open>fig_010.png\<close> and the
  eleventh \<^verbatim>\<open>fig_11.png\<close>; the files written for a cell with ten images are listed. The
  decoder of the example returns its argument.
\<close>

theorem tenth_image_filename:
  "img_filename 9 = ''fig_09.png'' \<and> img_filename 10 = ''fig_010.png'' \<and>
   img_filename 11 = ''fig_11.png'' \<and>
   (case extract_html_from_notebook Some example_fs ten_images ''dir'' ''nb.ipynb'' False of
      Inl e \<Rightarrow> []
    | Inr r \<Rightarrow> map fst (files (snd r)))
   = [''dir/output_nb_nb/fig_01.png'', ''dir/output_nb_nb/fig_02.png'',
      ''dir/output_nb_nb/fig_03.png'', ''dir/output_nb_nb/fig_04.png'',
      ''dir/output_nb_nb/fig_05.png'', ''dir/output_nb_nb/fig_06.png'',
      ''dir/output_nb_nb/fig_07.png'', ''dir/output_nb_nb/fig_08.png'',
      ''dir/output_nb_nb/fig_09.png'', ''dir/output_nb_nb/fig_010.png'']"
  by code_simp


section \<open>The hierarchy of headings\<close>

text \<open>
  Claim C7. When the headings of a document are, in document order, at the levels 1, 2, 3
  and 2, with the titles A, B, C and D (B and D different), the result holds A at the top
  level, B and D as the sections of A, in this order, and C as the only section of B; D has
  no sections and is not below B or C.
\<close>

theorem levels_1232_nesting:
  assumes "find_all_headings soup = [(ta, fa), (tb, fb), (tc, fc), (td, fd)]"
    and "tag_name ta = ''h1''" and "tag_name tb = ''h2''"
    and "tag_name tc = ''h3''" and "tag_name td = ''h2''"
    and "get_text tb \<noteq> get_text td"
  shows "html_to_hierarchical_json str_of soup filename =
     Inr [(filename,
           [(get_text ta, Section (section_contents str_of ta fa)
               (Some [(get_text tb, Section (section_contents str_of tb fb)
                         (Some [(get_text tc, Section (section_contents str_of tc fc) None)])),
                      (get_text td, Section (section_contents str_of td fd) None)]))])]"
  using assms
  by (simp add: html_to_hierarchical_json_def heading_step_def heading_level_def
        int_of_char_def Let_def)

theorem levels_1232_nesting_witness:
  "html_to_hierarchical_json element_markup nested_example ''nb.ipynb'' =
     Inr [(''nb.ipynb'',
           [(''A'', Section (''<h1>'' @ NL @ TAB @ TAB @ ''A'' @ NL @ TAB @ ''</h1>'')
               (Some [(''B'', Section (''<h2>'' @ NL @ TAB @ TAB @ ''B'' @ NL @ TAB @ ''</h2>'')
                         (Some [(''C'', Section (''<h3>'' @ NL @ TAB @ TAB @ ''C'' @ NL @ TAB @ ''</h3>'')
                                   None)])),
                      (''D'', Section (''<h2>'' @ NL @ TAB @ TAB @ ''D'' @ NL @ TAB @ ''</h2>'')
                         None)]))])]"
  using levels_1232_nesting
    [of nested_example
        "Tag ''h1'' [] [NavigableString (NL @ TAB @ TAB @ ''A'' @ NL @ TAB)]" "[NavigableString NL]"
        "Tag ''h2'' [] [NavigableString (NL @ TAB @ TAB @ ''B'' @ NL @ TAB)]" "[NavigableString NL]"
        "Tag ''h3'' [] [NavigableString (NL @ TAB @ TAB @ ''C'' @ NL @ TAB)]" "[NavigableString NL]"
        "Tag ''h2'' [] [NavigableString (NL @ TAB @ TAB @ ''D'' @ NL @ TAB)]" "[NavigableString NL]"
        element_markup "''nb.ipynb''"]
  by (simp add: nested_example_def soup_eval)

text \<open>
  Claim C1, as amended. For every heading element of the document, once the extractor has
  processed it, the section on top of the stack is placed in the result and its contents
  are the heading's own markup followed by the markup of every sibling element after it
  that is not itself a heading element, whether it stands before or after the next heading.
\<close>

theorem heading_contents_non_heading_siblings:
  assumes "find_all_headings soup = before @ (tag, following) # after"
    and "heading_steps str_of \<lparr>root = [], stack = []\<rparr> (before @ [(tag, following)]) = Inr hs"
  shows "\<exists>path level rest.
           stack hs = (path, level) # rest \<and>
           lookup_path (root hs) path =
             Some (Section
                     (str_of tag @
                      concat (map str_of
                        (filter (\<lambda>sibling. \<not> re_match_heading (tag_name sibling))
                           (filter is_Tag following))))
                     None)"
proof -
  from assms(2) obtain hs0 where
    before: "heading_steps str_of \<lparr>root = [], stack = []\<rparr> before = Inr hs0"
    and last: "heading_step str_of hs0 (tag, following) = Inr hs"
    by (auto simp: heading_steps_append split: sum.splits)
  have "stack_refers hs0"
    using stack_refers_initial before by (rule heading_steps_refers)
  then show ?thesis
    using heading_step_top [OF _ last]
    by (simp add: section_contents_def find_next_siblings_def)
qed

theorem heading_contents_non_heading_siblings_witness:
  "find_all_headings flat_example =
     [] @ (text_tag ''h1'' ''A'',
           [text_tag ''p'' ''x'', text_tag ''h2'' ''B'', text_tag ''p'' ''y'']) #
     [(text_tag ''h2'' ''B'', [text_tag ''p'' ''y''])] \<and>
   heading_steps element_markup \<lparr>root = [], stack = []\<rparr>
     ([] @ [(text_tag ''h1'' ''A'',
             [text_tag ''p'' ''x'', text_tag ''h2'' ''B'', text_tag ''p'' ''y''])]) =
     Inr \<lparr>root = [(''A'', Section ''<h1>A</h1><p>x</p><p>y</p>'' None)],
          stack = [([''A''], 1)]\<rparr> \<and>
   lookup_path [(''A'', Section ''<h1>A</h1><p>x</p><p>y</p>'' None)] [''A''] =
     Some (Section ''<h1>A</h1><p>x</p><p>y</p>'' None)"
  using heading_contents_non_heading_siblings
    [of flat_example "[]" "text_tag ''h1'' ''A''"
        "[text_tag ''p'' ''x'', text_tag ''h2'' ''B'', text_tag ''p'' ''y'']"
        "[(text_tag ''h2'' ''B'', [text_tag ''p'' ''y''])]" element_markup
        "\<lparr>root = [(''A'', Section ''<h1>A</h1><p>x</p><p>y</p>'' None)],
          stack = [([''A''], 1)]\<rparr>"]
  by (simp add: flat_eval Let_def)

text \<open>
  Claim C1, as stated, fails: the paragraph after the second heading is part of the first
  heading's contents, which therefore do not end at the next heading.
\<close>

theorem contents_stop_at_next_heading_counterexample:
  "html_to_hierarchical_json element_markup flat_example ''nb.ipynb'' =
     Inr [(''nb.ipynb'',
           [(''A'', Section ''<h1>A</h1><p>x</p><p>y</p>''
               (Some [(''B'', Section ''<h2>B</h2><p>y</p>'' None)]))])] \<and>
   contents_up_to_next_heading element_markup (text_tag ''h1'' ''A'')
     [text_tag ''p'' ''x'', text_tag ''h2'' ''B'', text_tag ''p'' ''y''] = ''<h1>A</h1><p>x</p>'' \<and>
   ''<h1>A</h1><p>x</p><p>y</p>'' \<noteq> ''<h1>A</h1><p>x</p>''"
  by code_simp

end
